theory Spec2Isabelle
  imports Complex_Main "HOL-Library.Word" "HOL-Library.Sublist"
begin

section \<open>JavaScript strings\<close>

text \<open>
  A JavaScript string is a sequence of UTF-16 code units; \<open>length\<close>, \<open>substring\<close>,
  \<open>trim\<close> and the regular expressions of the source (none has the \<open>u\<close> flag) all work
  on code units. String literals of the source that are plain ASCII are written with
  \<open>js\<close>.
\<close>

type_synonym code_unit = "16 word"
type_synonym jsstring = "code_unit list"

definition js :: "string \<Rightarrow> jsstring" where
  "js s = map of_char s"

text \<open>
  \<open>String.prototype.trim\<close> strips WhiteSpace and LineTerminator code points from both
  ends: TAB, LF, VT, FF, CR, SPACE, NBSP, U+1680, U+2000..U+200A, U+2028, U+2029,
  U+202F, U+205F, U+3000 and U+FEFF.
\<close>

definition isWhiteSpace :: "code_unit \<Rightarrow> bool" where
  "isWhiteSpace c \<longleftrightarrow>
     c = 0x09 \<or> c = 0x0A \<or> c = 0x0B \<or> c = 0x0C \<or> c = 0x0D \<or> c = 0x20 \<or> c = 0xA0
     \<or> c = 0x1680 \<or> (0x2000 \<le> c \<and> c \<le> 0x200A) \<or> c = 0x2028 \<or> c = 0x2029
     \<or> c = 0x202F \<or> c = 0x205F \<or> c = 0x3000 \<or> c = 0xFEFF"

definition trim :: "jsstring \<Rightarrow> jsstring" where
  "trim s = rev (dropWhile isWhiteSpace (rev (dropWhile isWhiteSpace s)))"

text \<open>\<open>s.substring(0, n)\<close> for a non-negative integer \<open>n\<close>.\<close>

definition substring0 :: "nat \<Rightarrow> jsstring \<Rightarrow> jsstring" where
  "substring0 n s = take n s"

section \<open>MessageProcessor.sanitizeText\<close>

text \<open>The character class \<open>[\x01-\x1F\x7F]\<close> of the second \<open>replace\<close>.\<close>

definition isControl :: "code_unit \<Rightarrow> bool" where
  "isControl c \<longleftrightarrow> (0x01 \<le> c \<and> c \<le> 0x1F) \<or> c = 0x7F"

text \<open>\<open>s.replace(/\x00/g, '')\<close> and \<open>s.replace(/[\x01-\x1F\x7F]/g, '')\<close>.\<close>

definition removeNull :: "jsstring \<Rightarrow> jsstring" where
  "removeNull s = filter (\<lambda>c. c \<noteq> 0x00) s"

definition removeControl :: "jsstring \<Rightarrow> jsstring" where
  "removeControl s = filter (\<lambda>c. \<not> isControl c) s"

definition sanitizeText :: "jsstring \<Rightarrow> jsstring" where
  "sanitizeText text = substring0 100000 (removeControl (removeNull (trim text)))"

section \<open>JavaScript values at the RPC boundary\<close>

text \<open>
  \<open>validateRequest\<close> takes \<open>rawRequest: any\<close>. A number is a double: NaN, the two
  infinities, or a finite value, which is a rational (\<open>-0\<close> and \<open>+0\<close> are both \<open>Fin 0\<close>:
  they are equal, both falsy, and \<open>Math.max\<close> with a positive bound maps both to
  the bound). \<open>Math.min\<close> and \<open>Math.max\<close> do not round.
\<close>

datatype jsnum = NaN | NegInf | Fin rat | PosInf

fun Math_max :: "jsnum \<Rightarrow> jsnum \<Rightarrow> jsnum" where
  "Math_max NaN _ = NaN"
| "Math_max _ NaN = NaN"
| "Math_max PosInf _ = PosInf"
| "Math_max _ PosInf = PosInf"
| "Math_max NegInf y = y"
| "Math_max x NegInf = x"
| "Math_max (Fin a) (Fin b) = Fin (max a b)"

fun Math_min :: "jsnum \<Rightarrow> jsnum \<Rightarrow> jsnum" where
  "Math_min NaN _ = NaN"
| "Math_min _ NaN = NaN"
| "Math_min NegInf _ = NegInf"
| "Math_min _ NegInf = NegInf"
| "Math_min PosInf y = y"
| "Math_min x PosInf = x"
| "Math_min (Fin a) (Fin b) = Fin (min a b)"

datatype jsval =
    JUndefined
  | JNull
  | JBool bool
  | JNum jsnum
  | JBigInt int
  | JStr jsstring
  | JSymbol
  | JFunction
  | JArr "jsval list"
  | JObj "string \<Rightarrow> jsval option"

datatype jstype =
  T_undefined | T_object | T_boolean | T_number | T_bigint | T_string | T_symbol | T_function

text \<open>The \<open>typeof\<close> operator: \<open>typeof null\<close> and \<open>typeof []\<close> are \<open>'object'\<close>.\<close>

fun typeof :: "jsval \<Rightarrow> jstype" where
  "typeof JUndefined = T_undefined"
| "typeof JNull = T_object"
| "typeof (JBool _) = T_boolean"
| "typeof (JNum _) = T_number"
| "typeof (JBigInt _) = T_bigint"
| "typeof (JStr _) = T_string"
| "typeof JSymbol = T_symbol"
| "typeof JFunction = T_function"
| "typeof (JArr _) = T_object"
| "typeof (JObj _) = T_object"

text \<open>ToBoolean, as \<open>!x\<close>, \<open>x && y\<close> and \<open>x || y\<close> use it.\<close>

fun truthy :: "jsval \<Rightarrow> bool" where
  "truthy JUndefined = False"
| "truthy JNull = False"
| "truthy (JBool b) = b"
| "truthy (JNum n) = (n \<noteq> NaN \<and> n \<noteq> Fin 0)"
| "truthy (JBigInt i) = (i \<noteq> 0)"
| "truthy (JStr s) = (s \<noteq> [])"
| "truthy JSymbol = True"
| "truthy JFunction = True"
| "truthy (JArr _) = True"
| "truthy (JObj _) = True"

text \<open>
  Reading one of the request's property names (\<open>prompt\<close>, \<open>model\<close>, ...) from a value:
  an own property of a plain object, \<open>undefined\<close> when it is absent, and \<open>undefined\<close>
  on an array or a primitive. (\<open>validateRequest\<close> reads properties only once it knows
  the value is a non-null object.)
\<close>

fun get :: "jsval \<Rightarrow> string \<Rightarrow> jsval" where
  "get (JObj fields) k = (case fields k of None \<Rightarrow> JUndefined | Some v \<Rightarrow> v)"
| "get _ k = JUndefined"

text \<open>\<open>x || y\<close> on values.\<close>

definition or_else :: "jsval \<Rightarrow> jsval \<Rightarrow> jsval" where
  "or_else x y = (if truthy x then x else y)"

text \<open>Truthiness of a field of TypeScript type \<open>string | undefined\<close>.\<close>

fun truthyString :: "jsstring option \<Rightarrow> bool" where
  "truthyString None = False"
| "truthyString (Some s) = (s \<noteq> [])"

section \<open>types.ts\<close>

record OpenAIConfig =
  apiKey :: "jsstring option"
  baseURL :: "jsstring option"
  defaultModel :: jsstring
  timeout :: nat

record ServerSettings =
  name :: jsstring
  version :: jsstring
  maxRetries :: nat
  retryDelay :: nat

datatype LogLevel = Debug | Info | Warn | Err

record LoggingConfig =
  level :: LogLevel
  logRequests :: bool
  logResponses :: bool

record ServerConfig =
  openai :: OpenAIConfig
  server :: ServerSettings
  logging :: LoggingConfig

text \<open>
  \<open>GPT5QueryRequest\<close> as \<open>validateRequest\<close> builds it: \<open>model\<close>, \<open>verbosity\<close> and
  \<open>reasoning_effort\<close> take whatever truthy value the raw request holds, so they are
  values; \<open>context\<close> (here \<open>context'\<close>), \<open>max_tokens\<close> and \<open>temperature\<close> are optional.
\<close>

record GPT5QueryRequest =
  prompt :: jsstring
  context' :: "jsstring option"
  model :: jsval
  verbosity :: jsval
  reasoning_effort :: jsval
  max_tokens :: "jsnum option"
  temperature :: "jsnum option"

text \<open>
  What the upstream call can throw: an \<open>OpenAI.APIError\<close> (message, status), another
  \<open>Error\<close> (message), or a value that is not an \<open>Error\<close>.
\<close>

datatype thrown = APIError jsstring "nat option" | OtherError jsstring | NonError

text \<open>
  The exceptions of this program: \<open>Error(message)\<close> and
  \<open>GPT5ClientError(message, statusCode, originalError)\<close>.
\<close>

datatype jserror = Error jsstring | GPT5ClientError jsstring "nat option" "thrown option"

record Usage =
  prompt_tokens :: nat
  completion_tokens :: nat
  total_tokens :: nat

record OpenAIResponse =
  output_text :: jsstring
  usage :: Usage
  model_fingerprint :: jsstring
  created :: nat

record Metadata =
  md_model :: jsval
  tokens_used :: nat
  md_model_fingerprint :: jsstring
  timestamp :: nat
  reasoning_time :: nat

record GPT5QueryResponse =
  content :: jsstring
  metadata :: Metadata

section \<open>MessageProcessor.validateRequest\<close>

text \<open>
  The result is the request, or the \<open>Error\<close> thrown. Each optional field is set only
  under the guard the source writes: \<open>context\<close> and \<open>max_tokens\<close> behind a truthiness
  test, \<open>temperature\<close> behind \<open>!== undefined\<close>.
\<close>

fun theString :: "jsval \<Rightarrow> jsstring" where
  "theString (JStr s) = s"
| "theString _ = []"

fun theNumber :: "jsval \<Rightarrow> jsnum" where
  "theNumber (JNum n) = n"
| "theNumber _ = NaN"

definition validateRequest :: "ServerConfig \<Rightarrow> jsval \<Rightarrow> jserror + GPT5QueryRequest" where
  "validateRequest config rawRequest =
     (if \<not> truthy rawRequest \<or> typeof rawRequest \<noteq> T_object then
        Inl (Error (js ''Invalid request: must be an object''))
      else if \<not> truthy (get rawRequest ''prompt'') \<or> typeof (get rawRequest ''prompt'') \<noteq> T_string then
        Inl (Error (js ''Invalid request: prompt is required and must be a string''))
      else
        let request = \<lparr>
              prompt = sanitizeText (theString (get rawRequest ''prompt'')),
              context' = None,
              model = or_else (get rawRequest ''model'') (JStr (defaultModel (openai config))),
              verbosity = or_else (get rawRequest ''verbosity'') (JStr (js ''medium'')),
              reasoning_effort = or_else (get rawRequest ''reasoning_effort'') (JStr (js ''standard'')),
              max_tokens = None,
              temperature = None \<rparr>;
            request =
              (if truthy (get rawRequest ''context'') \<and> typeof (get rawRequest ''context'') = T_string
               then request\<lparr>context' := Some (sanitizeText (theString (get rawRequest ''context'')))\<rparr>
               else request);
            request =
              (if truthy (get rawRequest ''max_tokens'') \<and> typeof (get rawRequest ''max_tokens'') = T_number
               then request\<lparr>max_tokens :=
                      Some (Math_min (Math_max (theNumber (get rawRequest ''max_tokens'')) (Fin 1)) (Fin 128000))\<rparr>
               else request);
            request =
              (if get rawRequest ''temperature'' \<noteq> JUndefined \<and> typeof (get rawRequest ''temperature'') = T_number
               then request\<lparr>temperature :=
                      Some (Math_min (Math_max (theNumber (get rawRequest ''temperature'')) (Fin 0)) (Fin 2))\<rparr>
               else request)
        in Inr request)"

section \<open>MessageProcessor.formatResponse\<close>

text \<open>\<open>s.startsWith(p)\<close> and \<open>s.includes(p)\<close> (here \<open>includes'\<close>).\<close>

definition startsWith :: "jsstring \<Rightarrow> jsstring \<Rightarrow> bool" where
  "startsWith s p \<longleftrightarrow> take (length p) s = p"

fun includes' :: "jsstring \<Rightarrow> jsstring \<Rightarrow> bool" where
  "includes' [] p = (p = [])"
| "includes' (c # s) p = (startsWith (c # s) p \<or> includes' s p)"

definition codeIndicators :: "jsstring list" where
  "codeIndicators =
     [[0x60, 0x60, 0x60], js ''function '', js ''class '', js ''import '', js ''const '',
      js ''let '', js ''var '', js ''def '', js ''public '', js ''private '', js ''#include'',
      js ''SELECT '', js ''FROM '']"

text \<open>
  \<open>String.prototype.toLowerCase\<close> follows the Unicode case tables, which are not part
  of the repository: it is the parameter \<open>toLowerCase\<close> of the functions below.
\<close>

definition containsCode :: "(jsstring \<Rightarrow> jsstring) \<Rightarrow> jsstring \<Rightarrow> bool" where
  "containsCode toLowerCase content' =
     list_ex (\<lambda>indicator. includes' (toLowerCase content') (toLowerCase indicator)) codeIndicators"

text \<open>The number of matches of \<open>/```/g\<close>: matches do not overlap.\<close>

fun codeBlockCount :: "jsstring \<Rightarrow> nat" where
  "codeBlockCount (a # b # c # s) =
     (if a = 0x60 \<and> b = 0x60 \<and> c = 0x60 then Suc (codeBlockCount s)
      else codeBlockCount (b # c # s))"
| "codeBlockCount _ = 0"

text \<open>The class \<open>[\w-]\<close>: ASCII letters, digits, underscore and hyphen.\<close>

definition isWordOrHyphen :: "code_unit \<Rightarrow> bool" where
  "isWordOrHyphen c \<longleftrightarrow>
     (0x41 \<le> c \<and> c \<le> 0x5A) \<or> (0x61 \<le> c \<and> c \<le> 0x7A) \<or> (0x30 \<le> c \<and> c \<le> 0x39)
     \<or> c = 0x5F \<or> c = 0x2D"

text \<open>Whether \<open>[\w-]+\n\<close> matches at the start of \<open>s\<close> (the body of the lookahead).\<close>

definition languageTagAhead :: "jsstring \<Rightarrow> bool" where
  "languageTagAhead s \<longleftrightarrow>
     takeWhile isWordOrHyphen s \<noteq> [] \<and>
     (case dropWhile isWordOrHyphen s of [] \<Rightarrow> False | c # _ \<Rightarrow> c = 0x0A)"

text \<open>\<open>s.replace(/```\n(?![\w-]+\n)/g, '```text\n')\<close>.\<close>

fun addLanguageHints :: "jsstring \<Rightarrow> jsstring" where
  "addLanguageHints (a # b # c # d # s) =
     (if a = 0x60 \<and> b = 0x60 \<and> c = 0x60 \<and> d = 0x0A \<and> \<not> languageTagAhead s
      then [0x60, 0x60, 0x60] @ js ''text'' @ [0x0A] @ addLanguageHints s
      else a # addLanguageHints (b # c # d # s))"
| "addLanguageHints s = s"

definition formatCodeBlocks :: "jsstring \<Rightarrow> jsstring" where
  "formatCodeBlocks content' =
     (let formatted = content';
          formatted = (if codeBlockCount formatted mod 2 \<noteq> 0
                       then formatted @ [0x0A, 0x60, 0x60, 0x60] else formatted)
      in addLanguageHints formatted)"

text \<open>\<open>s.replace(/\n\n\n+/g, '\n\n')\<close>.\<close>

function collapseNewlines :: "jsstring \<Rightarrow> jsstring" where
  "collapseNewlines (a # b # c # s) =
     (if a = 0x0A \<and> b = 0x0A \<and> c = 0x0A
      then [0x0A, 0x0A] @ collapseNewlines (dropWhile (\<lambda>x. x = 0x0A) s)
      else a # collapseNewlines (b # c # s))"
| "collapseNewlines [] = []"
| "collapseNewlines [a] = [a]"
| "collapseNewlines [a, b] = [a, b]"
  by pat_completeness auto
termination
  by (relation "measure length") (auto intro: le_imp_less_Suc le_SucI length_dropWhile_le)

text \<open>The header: U+1F916 (a surrogate pair), \<open>' **GPT-5 Response**'\<close> and two newlines.\<close>

definition header :: jsstring where
  "header = [0xD83E, 0xDD16] @ js '' **GPT-5 Response**'' @ [0x0A, 0x0A]"

definition formatResponseContent :: "(jsstring \<Rightarrow> jsstring) \<Rightarrow> jsstring \<Rightarrow> jsstring" where
  "formatResponseContent toLowerCase content' =
     (if content' = [] then js ''No response generated.''
      else
        let formatted = trim content';
            formatted = (if containsCode toLowerCase formatted
                         then formatCodeBlocks formatted else formatted);
            formatted = collapseNewlines formatted
        in header @ formatted)"

text \<open>\<open>now\<close> is the value of \<open>Date.now()\<close>.\<close>

definition formatResponse ::
  "(jsstring \<Rightarrow> jsstring) \<Rightarrow> nat \<Rightarrow> OpenAIResponse \<Rightarrow> GPT5QueryRequest \<Rightarrow> nat \<Rightarrow> GPT5QueryResponse" where
  "formatResponse toLowerCase now openaiResponse originalRequest processingTimeMs =
     \<lparr> content = formatResponseContent toLowerCase (output_text openaiResponse),
       metadata = \<lparr>
         md_model = model originalRequest,
         tokens_used = total_tokens (usage openaiResponse),
         md_model_fingerprint = model_fingerprint openaiResponse,
         timestamp = now,
         reasoning_time = processingTimeMs \<rparr> \<rparr>"

section \<open>MessageProcessor.estimateTokens and truncateIfNeeded\<close>

text \<open>
  \<open>Math.ceil(text.length / 4)\<close>: a length is an integer below \<open>2^53\<close>, and dividing a
  double by 4 is exact, so the result is the ceiling of the rational quotient.
\<close>

definition estimateTokens :: "jsstring \<Rightarrow> nat" where
  "estimateTokens text = nat \<lceil>(of_nat (length text) :: rat) / 4\<rceil>"

text \<open>\<open>request.context || ''\<close> and \<open>request.context?.length || 0\<close>.\<close>

fun orEmpty :: "jsstring option \<Rightarrow> jsstring" where
  "orEmpty None = []"
| "orEmpty (Some s) = (if s \<noteq> [] then s else [])"

fun lengthOrZero :: "jsstring option \<Rightarrow> nat" where
  "lengthOrZero None = 0"
| "lengthOrZero (Some s) = (if length s \<noteq> 0 then length s else 0)"

definition truncationMarker :: jsstring where
  "truncationMarker = js ''...[truncated]''"

text \<open>
  The source updates the request in place and returns it; the model returns the
  updated record. The warning written to the console is not modelled. The function has
  no \<open>throw\<close> and calls nothing that throws on a typed request, so its result is a
  request.
\<close>

definition truncateIfNeeded :: "GPT5QueryRequest \<Rightarrow> GPT5QueryRequest" where
  "truncateIfNeeded request =
     (let maxPromptTokens = 380000;
          estimatedTokens = estimateTokens (prompt request @ orEmpty (context' request))
      in if estimatedTokens > maxPromptTokens then
           let maxChars = maxPromptTokens * 4;
               totalLength = length (prompt request) + lengthOrZero (context' request);
               request =
                 (case context' request of
                    Some c \<Rightarrow>
                      if c \<noteq> [] \<and> totalLength > maxChars then
                        let contextLimit = nat (max 0 (int maxChars - int (length (prompt request))))
                        in request\<lparr>context' := Some (substring0 contextLimit c @ truncationMarker)\<rparr>
                      else request
                  | None \<Rightarrow> request);
               request =
                 (if length (prompt request) > maxChars then
                    request\<lparr>prompt := substring0 (maxChars - 100) (prompt request) @ truncationMarker\<rparr>
                  else request)
           in request
         else request)"

section \<open>GPT5Client\<close>

text \<open>The options handed to \<open>new OpenAI(...)\<close>, and the client object.\<close>

record OpenAIOptions =
  opt_apiKey :: "jsstring option"
  opt_baseURL :: "jsstring option"
  opt_timeout :: nat

record GPT5Client =
  client_config :: ServerConfig
  client_openai :: OpenAIOptions

definition GPT5Client_constructor :: "ServerConfig \<Rightarrow> jserror + GPT5Client" where
  "GPT5Client_constructor config =
     (if \<not> truthyString (apiKey (openai config)) then
        Inl (GPT5ClientError (js ''OpenAI API key is required'') None None)
      else
        Inr \<lparr> client_config = config,
              client_openai = \<lparr>
                opt_apiKey = apiKey (openai config),
                opt_baseURL = baseURL (openai config),
                opt_timeout = timeout (openai config) \<rparr> \<rparr>)"

datatype Role = User | Assistant | System

record Message =
  role :: Role
  msg_content :: jsstring

record OpenAIRequest =
  oa_model :: jsval
  input :: "Message list"
  max_output_tokens :: "jsnum option"
  oa_verbosity :: jsval
  oa_reasoning_effort :: jsval
  oa_temperature :: "jsnum option"

definition formatRequest :: "GPT5QueryRequest \<Rightarrow> OpenAIRequest" where
  "formatRequest request =
     (let messages = [\<lparr> role = User,
                         msg_content =
                           (case context' request of
                              Some c \<Rightarrow>
                                if c \<noteq> []
                                then js ''Context: '' @ c @ [0x0A, 0x0A] @ js ''Request: '' @ prompt request
                                else prompt request
                            | None \<Rightarrow> prompt request) \<rparr>];
          openaiRequest = \<lparr>
            oa_model = model request,
            input = messages,
            max_output_tokens = None,
            oa_verbosity = verbosity request,
            oa_reasoning_effort = reasoning_effort request,
            oa_temperature = None \<rparr>;
          openaiRequest =
            (case max_tokens request of
               Some n \<Rightarrow> if truthy (JNum n) then openaiRequest\<lparr>max_output_tokens := Some n\<rparr>
                         else openaiRequest
             | None \<Rightarrow> openaiRequest);
          openaiRequest =
            (case temperature request of
               Some t \<Rightarrow> openaiRequest\<lparr>oa_temperature := Some t\<rparr>
             | None \<Rightarrow> openaiRequest)
      in openaiRequest)"

text \<open>
  The parameters of \<open>chat.completions.create\<close> and the part of its result that
  \<open>query\<close> reads; every part \<open>query\<close> reads with \<open>?.\<close> or \<open>||\<close> is optional.
\<close>

record ChatParams =
  cp_model :: jsval
  cp_messages :: "Message list"
  cp_max_tokens :: "jsnum option"
  cp_temperature :: "jsnum option"

record ChatUsage =
  cu_prompt_tokens :: "nat option"
  cu_completion_tokens :: "nat option"
  cu_total_tokens :: "nat option"

record ChatCompletion =
  choices :: "jsstring option option list option"
  cc_usage :: "ChatUsage option"
  system_fingerprint :: "jsstring option"
  cc_created :: "nat option"

text \<open>
  \<open>response.choices?.[0]?.message?.content || ''\<close>: a choice is its message, a
  message is its content, each possibly missing.
\<close>

definition firstContent :: "ChatCompletion \<Rightarrow> jsstring" where
  "firstContent response =
     (case choices response of
        Some (Some (Some text) # _) \<Rightarrow> text
      | _ \<Rightarrow> [])"

text \<open>\<open>n || d\<close> for an optional count.\<close>

fun countOr :: "nat option \<Rightarrow> nat \<Rightarrow> nat" where
  "countOr None d = d"
| "countOr (Some n) d = (if n \<noteq> 0 then n else d)"

text \<open>
  \<open>query\<close>. The upstream call is the parameter \<open>create\<close>: it returns a completion or
  throws. \<open>startTime\<close> is \<open>Date.now()\<close>. Console output is not modelled. Every throw
  inside the \<open>try\<close> is rethrown as a \<open>GPT5ClientError\<close>.
\<close>

definition query ::
  "GPT5Client \<Rightarrow> (ChatParams \<Rightarrow> thrown + ChatCompletion) \<Rightarrow> nat \<Rightarrow> GPT5QueryRequest
   \<Rightarrow> jserror + OpenAIResponse" where
  "query client create startTime request =
     (let openaiRequest = formatRequest request in
      case create \<lparr> cp_model = oa_model openaiRequest,
                     cp_messages = input openaiRequest,
                     cp_max_tokens = max_output_tokens openaiRequest,
                     cp_temperature = oa_temperature openaiRequest \<rparr> of
        Inr response \<Rightarrow>
          Inr \<lparr> output_text = firstContent response,
                usage = \<lparr>
                  prompt_tokens = countOr (case cc_usage response of None \<Rightarrow> None | Some u \<Rightarrow> cu_prompt_tokens u) 0,
                  completion_tokens = countOr (case cc_usage response of None \<Rightarrow> None | Some u \<Rightarrow> cu_completion_tokens u) 0,
                  total_tokens = countOr (case cc_usage response of None \<Rightarrow> None | Some u \<Rightarrow> cu_total_tokens u) 0 \<rparr>,
                model_fingerprint = (case system_fingerprint response of None \<Rightarrow> [] | Some f \<Rightarrow> f),
                created = countOr (cc_created response) (startTime div 1000) \<rparr>
      | Inl (APIError message status) \<Rightarrow>
          Inl (GPT5ClientError (js ''OpenAI API Error: '' @ message) status
                 (Some (APIError message status)))
      | Inl (OtherError message) \<Rightarrow>
          Inl (GPT5ClientError (js ''Unexpected error: '' @ message) None
                 (Some (OtherError message)))
      | Inl NonError \<Rightarrow>
          Inl (GPT5ClientError (js ''Unexpected error: Unknown error'') None None))"

text \<open>
  \<open>testConnection\<close>: the probe request, and the \<open>try\<close>/\<open>catch\<close> around \<open>query\<close>. Its
  result type keeps a place for an exception that would leave the function.
\<close>

definition testRequest :: GPT5QueryRequest where
  "testRequest = \<lparr>
     prompt = js ''Hello, this is a connection test.'',
     context' = None,
     model = JStr (js ''gpt-5-nano''),
     verbosity = JStr (js ''low''),
     reasoning_effort = JStr (js ''minimal''),
     max_tokens = Some (Fin 10),
     temperature = None \<rparr>"

definition testConnection ::
  "GPT5Client \<Rightarrow> (ChatParams \<Rightarrow> thrown + ChatCompletion) \<Rightarrow> nat \<Rightarrow> jserror + bool" where
  "testConnection client create startTime =
     (case query client create startTime testRequest of
        Inr _ \<Rightarrow> Inr True
      | Inl error \<Rightarrow> Inr False)"

section \<open>Inputs of the unit tests\<close>

text \<open>
  The configuration, requests and responses that the repository's tests of
  \<open>MessageProcessor\<close> build, and two upstream behaviours for the connection test.
  \<open>asciiToLowerCase\<close> is \<open>toLowerCase\<close> on ASCII text.
\<close>

definition mockConfig :: ServerConfig where
  "mockConfig = \<lparr>
     openai = \<lparr> apiKey = Some (js ''sk-test-key''), baseURL = None,
                defaultModel = js ''gpt-5-nano'', timeout = 30000 \<rparr>,
     server = \<lparr> name = js ''test-server'', version = js ''1.0.0'',
                maxRetries = 3, retryDelay = 1000 \<rparr>,
     logging = \<lparr> level = Err, logRequests = False, logResponses = False \<rparr> \<rparr>"

definition withApiKey :: "jsstring option \<Rightarrow> ServerConfig \<Rightarrow> ServerConfig" where
  "withApiKey k config = config\<lparr>openai := (openai config)\<lparr>apiKey := k\<rparr>\<rparr>"

definition simpleRequest :: "jsstring \<Rightarrow> jsstring option \<Rightarrow> GPT5QueryRequest" where
  "simpleRequest p c = \<lparr>
     prompt = p, context' = c, model = JStr (js ''gpt-5''),
     verbosity = JStr (js ''medium''), reasoning_effort = JStr (js ''standard''),
     max_tokens = None, temperature = None \<rparr>"

definition emptyResponse :: OpenAIResponse where
  "emptyResponse = \<lparr>
     output_text = [],
     usage = \<lparr> prompt_tokens = 10, completion_tokens = 0, total_tokens = 10 \<rparr>,
     model_fingerprint = js ''test-fingerprint'',
     created = 1234567890 \<rparr>"

definition asciiToLowerCase :: "jsstring \<Rightarrow> jsstring" where
  "asciiToLowerCase s = map (\<lambda>c. if 0x41 \<le> c \<and> c \<le> 0x5A then c + 0x20 else c) s"

definition failingCreate :: "ChatParams \<Rightarrow> thrown + ChatCompletion" where
  "failingCreate params = Inl (APIError (js ''Incorrect API key provided'') (Some 401))"

definition succeedingCreate :: "ChatParams \<Rightarrow> thrown + ChatCompletion" where
  "succeedingCreate params =
     Inr \<lparr> choices = Some [Some (Some (js ''Hello!''))],
           cc_usage = Some \<lparr> cu_prompt_tokens = Some 9, cu_completion_tokens = Some 2,
                              cu_total_tokens = Some 11 \<rparr>,
           system_fingerprint = None,
           cc_created = Some 1234567890 \<rparr>"

text \<open>The parameters that \<open>testConnection\<close> hands to the upstream call.\<close>

definition probeParams :: ChatParams where
  "probeParams = \<lparr>
     cp_model = JStr (js ''gpt-5-nano''),
     cp_messages = [\<lparr> role = User, msg_content = js ''Hello, this is a connection test.'' \<rparr>],
     cp_max_tokens = Some (Fin 10),
     cp_temperature = None \<rparr>"

section \<open>Properties of sanitizeText\<close>

text \<open>The equations that evaluate \<open>sanitizeText\<close> on a literal.\<close>

lemmas eval_sanitize =
  sanitizeText_def substring0_def removeControl_def removeNull_def trim_def
  isWhiteSpace_def isControl_def word_le_nat_alt js_def

lemma set_trim: "set (trim s) \<subseteq> set s"
proof -
  have "set (trim s) = set (dropWhile isWhiteSpace (rev (dropWhile isWhiteSpace s)))"
    by (simp add: trim_def)
  also have "\<dots> \<subseteq> set (rev (dropWhile isWhiteSpace s))"
    by (rule set_dropWhileD [THEN subsetI])
  also have "\<dots> \<subseteq> set s"
    using set_dropWhileD [of _ isWhiteSpace s] by auto
  finally show ?thesis .
qed

lemma length_trim: "length (trim s) \<le> length s"
proof -
  have "length (trim s) \<le> length (dropWhile isWhiteSpace s)"
    using length_dropWhile_le [of isWhiteSpace "rev (dropWhile isWhiteSpace s)"]
    by (simp add: trim_def)
  also have "\<dots> \<le> length s"
    by (rule length_dropWhile_le)
  finally show ?thesis .
qed

lemma sanitizeText_clean:
  assumes "c \<in> set (sanitizeText s)"
  shows "c \<noteq> 0x00" and "\<not> isControl c"
proof -
  from assms have "c \<in> set (removeControl (removeNull (trim s)))"
    unfolding sanitizeText_def substring0_def by (rule in_set_takeD)
  then show "c \<noteq> 0x00" and "\<not> isControl c"
    by (simp_all add: removeControl_def removeNull_def)
qed

lemma length_sanitizeText: "length (sanitizeText s) \<le> 100000"
  by (simp add: sanitizeText_def substring0_def)

lemma sanitizeText_of_clean:
  assumes clean: "\<And>c. c \<in> set t \<Longrightarrow> c \<noteq> 0x00 \<and> \<not> isControl c"
    and short: "length t \<le> 100000"
  shows "sanitizeText t = trim t"
proof -
  have in_t: "\<And>c. c \<in> set (trim t) \<Longrightarrow> c \<in> set t"
    using set_trim [of t] by blast
  have "removeNull (trim t) = trim t"
    unfolding removeNull_def using clean in_t by (simp add: filter_id_conv)
  moreover have "removeControl (trim t) = trim t"
    unfolding removeControl_def using clean in_t by (simp add: filter_id_conv)
  moreover have "length (trim t) \<le> 100000"
    using length_trim [of t] short by simp
  ultimately show ?thesis
    by (simp add: sanitizeText_def substring0_def)
qed

lemma dropWhile_rev_dropWhile:
  "dropWhile P (rev (dropWhile P (rev (dropWhile P s)))) = rev (dropWhile P (rev (dropWhile P s)))"
proof (cases "dropWhile P s")
  case Nil
  show ?thesis by (simp only: Nil rev.simps dropWhile.simps)
next
  case (Cons a as)
  then have na: "\<not> P a"
    using hd_dropWhile [of P s] by auto
  have "\<exists>bs. dropWhile P (rev (a # as)) = bs @ [a]"
  proof -
    have "rev (a # as) = takeWhile P (rev (a # as)) @ dropWhile P (rev (a # as))"
      by simp
    moreover have "dropWhile P (rev (a # as)) \<noteq> []"
      using na by (auto simp: dropWhile_eq_Nil_conv)
    ultimately have "last (dropWhile P (rev (a # as))) = last (rev (a # as))"
      by (metis last_appendR)
    then have "last (dropWhile P (rev (a # as))) = a" by simp
    with \<open>dropWhile P (rev (a # as)) \<noteq> []\<close> show ?thesis
      by (metis append_butlast_last_id)
  qed
  then obtain bs where bs: "dropWhile P (rev (a # as)) = bs @ [a]" by blast
  show ?thesis
    using na by (simp only: Cons bs) simp
qed

lemma trim_trim: "trim (trim s) = trim s"
  by (simp add: trim_def dropWhile_idem dropWhile_rev_dropWhile)

text \<open>
  C3 (as amended). Sanitizing an already sanitized text only trims it again:
  \<open>sanitizeText (sanitizeText s) = trim (sanitizeText s)\<close>, and from the second
  application on the result is a fixed point. Sanitization is idempotent on every text
  that, once trimmed, has at most 100000 code units and neither a null byte nor a
  character of \<open>[\x01-\x1F\x7F]\<close>. (On other texts the second application can differ
  from the first: removing control characters, or cutting at 100000 code units,
  happens after the trim and can expose white space at either end.)
\<close>

theorem sanitizeText_twice:
  "sanitizeText (sanitizeText s) = trim (sanitizeText s)
   \<and> sanitizeText (sanitizeText (sanitizeText s)) = sanitizeText (sanitizeText s)
   \<and> ((\<forall>c \<in> set (trim s). c \<noteq> 0x00 \<and> \<not> isControl c) \<and> length (trim s) \<le> 100000 \<longrightarrow>
         sanitizeText (sanitizeText s) = sanitizeText s)"
proof -
  have once: "sanitizeText (sanitizeText t) = trim (sanitizeText t)" for t
    by (rule sanitizeText_of_clean)
       (auto dest: sanitizeText_clean simp: length_sanitizeText)
  have "sanitizeText (sanitizeText (sanitizeText s)) = trim (sanitizeText (sanitizeText s))"
    by (rule once)
  also have "\<dots> = trim (trim (sanitizeText s))"
    by (simp only: once)
  also have "\<dots> = sanitizeText (sanitizeText s)"
    by (simp only: trim_trim once)
  finally have fixed: "sanitizeText (sanitizeText (sanitizeText s)) = sanitizeText (sanitizeText s)" .
  have clean: "sanitizeText (sanitizeText s) = sanitizeText s"
    if "\<forall>c \<in> set (trim s). c \<noteq> 0x00 \<and> \<not> isControl c" and "length (trim s) \<le> 100000"
  proof -
    from that have "sanitizeText s = trim s"
      by (simp add: sanitizeText_def substring0_def removeNull_def removeControl_def filter_id_conv)
    then show ?thesis
      using once [of s] by (simp add: trim_trim)
  qed
  from once [of s] fixed clean show ?thesis by blast
qed

theorem sanitizeText_twice_witness:
  "sanitizeText (sanitizeText [0x61, 0x20, 0x01]) = trim (sanitizeText [0x61, 0x20, 0x01])
   \<and> sanitizeText (sanitizeText (sanitizeText [0x61, 0x20, 0x01]))
       = sanitizeText (sanitizeText [0x61, 0x20, 0x01])
   \<and> sanitizeText (sanitizeText (js ''  Test prompt  '')) = sanitizeText (js ''  Test prompt  '')"
proof -
  have "trim (js ''  Test prompt  '') = js ''Test prompt''"
    by (simp add: eval_sanitize)
  then have "(\<forall>c \<in> set (trim (js ''  Test prompt  '')). c \<noteq> 0x00 \<and> \<not> isControl c)
      \<and> length (trim (js ''  Test prompt  '')) \<le> 100000"
    by (simp add: js_def isControl_def word_le_nat_alt)
  with sanitizeText_twice [of "js ''  Test prompt  ''"] sanitizeText_twice [of "[0x61, 0x20, 0x01]"]
  show ?thesis by blast
qed

text \<open>
  C3 as stated fails: \<open>'a \x01'\<close> sanitizes to \<open>'a '\<close> (the control character goes
  after the trim), and sanitizing that gives \<open>'a'\<close>.
\<close>

theorem sanitizeText_not_idempotent:
  "sanitizeText (sanitizeText [0x61, 0x20, 0x01]) \<noteq> sanitizeText [0x61, 0x20, 0x01]"
proof -
  have "sanitizeText [0x61, 0x20, 0x01] = [0x61, 0x20]"
    by (simp add: eval_sanitize)
  moreover have "sanitizeText [0x61, 0x20] = [0x61]"
    by (simp add: eval_sanitize)
  ultimately show ?thesis by simp
qed

text \<open>
  C5: the class \<open>[\x01-\x1F\x7F]\<close> contains TAB (\<open>\x09\<close>) and LF (\<open>\x0A\<close>), so
  \<open>sanitizeText\<close> removes the newline and the tab inside \<open>'a\n\tb'\<close> and returns
  \<open>'ab'\<close>.
\<close>

theorem sanitizeText_removes_newline_and_tab:
  "sanitizeText (js ''a'' @ [0x0A, 0x09] @ js ''b'') = js ''ab''"
  by (simp add: eval_sanitize)

section \<open>Properties of estimateTokens and truncateIfNeeded\<close>

lemma estimateTokens_eq: "estimateTokens t = (length t + 3) div 4"
proof -
  have "\<lceil>(of_nat (length t) :: rat) / 4\<rceil> = - (- int (length t) div 4)"
    using ceiling_divide_eq_div [where ?'a = rat, of "int (length t)" 4] by simp
  then show ?thesis
    unfolding estimateTokens_def by simp
qed

lemma estimateTokens_gt: "estimateTokens t > 380000 \<longleftrightarrow> length t > 1520000"
  by (simp add: estimateTokens_eq) arith

lemma contextLimit_eq: "nat (1520000 - int n) = 1520000 - n"
  by arith

lemma length_js: "length (js s) = length s"
  by (simp add: js_def)

text \<open>
  What \<open>truncateIfNeeded\<close> does when the estimate \<open>ceil((|prompt| + |context|) / 4)\<close>
  exceeds 380000: a context that is present and not empty keeps its first
  \<open>1520000 - |prompt|\<close> code units (none when the prompt alone fills the budget), a
  proper part of it, and the marker is appended to that; the prompt is cut only if it
  alone is longer than 1520000, to its first \<open>1520000 - 100\<close> code units followed by the
  marker. Every field that is cut ends with \<open>...[truncated]\<close>, the other fields stay
  as they are, and the function returns a request: it has no failing branch.
\<close>

theorem truncateIfNeeded_over_budget:
  assumes over: "estimateTokens (prompt r @ orEmpty (context' r)) > 380000"
  shows "(\<forall>c. context' r = Some c \<and> c \<noteq> [] \<longrightarrow>
            1520000 - length (prompt r) < length c
            \<and> context' (truncateIfNeeded r)
                = Some (take (1520000 - length (prompt r)) c @ js ''...[truncated]''))
       \<and> (context' r = None \<or> context' r = Some [] \<longrightarrow>
            context' (truncateIfNeeded r) = context' r \<and> length (prompt r) > 1520000)
       \<and> prompt (truncateIfNeeded r)
            = (if length (prompt r) > 1520000
               then take (1520000 - 100) (prompt r) @ js ''...[truncated]''
               else prompt r)
       \<and> (length (prompt r) > 1520000 \<longrightarrow>
            suffix (js ''...[truncated]'') (prompt (truncateIfNeeded r)))
       \<and> (\<forall>c. context' r = Some c \<and> c \<noteq> [] \<longrightarrow>
            (\<exists>c'. context' (truncateIfNeeded r) = Some c' \<and> suffix (js ''...[truncated]'') c'))
       \<and> model (truncateIfNeeded r) = model r
       \<and> verbosity (truncateIfNeeded r) = verbosity r
       \<and> reasoning_effort (truncateIfNeeded r) = reasoning_effort r
       \<and> max_tokens (truncateIfNeeded r) = max_tokens r
       \<and> temperature (truncateIfNeeded r) = temperature r"
proof -
  from over have total: "length (prompt r) + length (orEmpty (context' r)) > 1520000"
    by (simp add: estimateTokens_gt)
  show ?thesis
  proof (cases "context' r")
    case None
    with total show ?thesis
      by (simp add: truncateIfNeeded_def Let_def estimateTokens_gt substring0_def
            truncationMarker_def suffix_def)
  next
    case (Some c)
    with total show ?thesis
      by (cases "c = []")
         (auto simp: truncateIfNeeded_def Let_def estimateTokens_gt substring0_def
            truncationMarker_def contextLimit_eq suffix_def)
  qed
qed

theorem truncateIfNeeded_over_budget_examples:
  "estimateTokens (prompt (simpleRequest (js ''Important prompt'') (Some (replicate 2000000 0x42)))
     @ orEmpty (context' (simpleRequest (js ''Important prompt'') (Some (replicate 2000000 0x42)))))
     > 380000
   \<and> context' (truncateIfNeeded (simpleRequest (js ''Important prompt'') (Some (replicate 2000000 0x42))))
       = Some (replicate 1519984 0x42 @ js ''...[truncated]'')
   \<and> prompt (truncateIfNeeded (simpleRequest (js ''Important prompt'') (Some (replicate 2000000 0x42))))
       = js ''Important prompt''
   \<and> estimateTokens (prompt (simpleRequest (replicate 2000000 0x41) None)
     @ orEmpty (context' (simpleRequest (replicate 2000000 0x41) None))) > 380000
   \<and> prompt (truncateIfNeeded (simpleRequest (replicate 2000000 0x41) None))
       = replicate 1519900 0x41 @ js ''...[truncated]''
   \<and> context' (truncateIfNeeded (simpleRequest (replicate 2000000 0x41) None)) = None"
proof -
  let ?r = "simpleRequest (js ''Important prompt'') (Some (replicate 2000000 0x42))"
  let ?q = "simpleRequest (replicate 2000000 0x41) None"
  have over: "estimateTokens (prompt ?r @ orEmpty (context' ?r)) > 380000"
    by (simp add: estimateTokens_gt simpleRequest_def length_js)
  have ctx: "context' ?r = Some (replicate 2000000 0x42) \<and> replicate 2000000 (0x42 :: code_unit) \<noteq> []"
    by (simp add: simpleRequest_def)
  have len: "length (prompt ?r) = 16"
    by (simp add: simpleRequest_def length_js)
  from truncateIfNeeded_over_budget [OF over] ctx
  have "context' (truncateIfNeeded ?r)
          = Some (take (1520000 - length (prompt ?r)) (replicate 2000000 0x42) @ js ''...[truncated]'')"
    by blast
  moreover from truncateIfNeeded_over_budget [OF over]
  have "prompt (truncateIfNeeded ?r)
          = (if length (prompt ?r) > 1520000
             then take (1520000 - 100) (prompt ?r) @ js ''...[truncated]'' else prompt ?r)"
    by blast
  ultimately have first:
    "context' (truncateIfNeeded ?r) = Some (replicate 1519984 0x42 @ js ''...[truncated]'')
     \<and> prompt (truncateIfNeeded ?r) = js ''Important prompt''"
    by (simp add: len) (simp add: simpleRequest_def)
  have over': "estimateTokens (prompt ?q @ orEmpty (context' ?q)) > 380000"
    by (simp add: estimateTokens_gt simpleRequest_def)
  have none: "context' ?q = None" and len': "length (prompt ?q) = 2000000"
    by (simp_all add: simpleRequest_def)
  from truncateIfNeeded_over_budget [OF over'] none
  have "context' (truncateIfNeeded ?q) = None"
    by simp
  moreover from truncateIfNeeded_over_budget [OF over']
  have "prompt (truncateIfNeeded ?q)
          = (if length (prompt ?q) > 1520000
             then take (1520000 - 100) (prompt ?q) @ js ''...[truncated]'' else prompt ?q)"
    by blast
  ultimately have second:
    "prompt (truncateIfNeeded ?q) = replicate 1519900 0x41 @ js ''...[truncated]''
     \<and> context' (truncateIfNeeded ?q) = None"
    by (simp add: len') (simp add: simpleRequest_def)
  from over first over' second show ?thesis by blast
qed



text \<open>
  C10. When the estimate \<open>ceil((|prompt| + |context|) / 4)\<close> is at most 380000,
  \<open>truncateIfNeeded\<close> returns the request it was given: every field is unchanged.
\<close>

theorem truncateIfNeeded_within_budget:
  "estimateTokens (prompt r @ orEmpty (context' r)) \<le> 380000 \<Longrightarrow> truncateIfNeeded r = r"
  by (simp add: truncateIfNeeded_def Let_def)

theorem truncateIfNeeded_within_budget_witness:
  "estimateTokens (prompt (simpleRequest (js ''Short prompt'') None)
     @ orEmpty (context' (simpleRequest (js ''Short prompt'') None))) \<le> 380000
   \<and> truncateIfNeeded (simpleRequest (js ''Short prompt'') None)
       = simpleRequest (js ''Short prompt'') None"
proof -
  let ?r = "simpleRequest (js ''Short prompt'') None"
  have within: "estimateTokens (prompt ?r @ orEmpty (context' ?r)) \<le> 380000"
    by (simp add: estimateTokens_eq simpleRequest_def length_js)
  with truncateIfNeeded_within_budget [OF within] show ?thesis by simp
qed

section \<open>Properties of validateRequest\<close>

lemmas eval_validate =
  validateRequest_def mockConfig_def or_else_def eval_sanitize

lemma validateRequest_accepts:
  assumes "validateRequest config raw = Inr request"
  shows "truthy raw" and "typeof raw = T_object"
    and "truthy (get raw ''prompt'')" and "typeof (get raw ''prompt'') = T_string"
proof -
  have g1: "\<not> (\<not> truthy raw \<or> typeof raw \<noteq> T_object)"
  proof
    assume "\<not> truthy raw \<or> typeof raw \<noteq> T_object"
    then have "validateRequest config raw = Inl (Error (js ''Invalid request: must be an object''))"
      unfolding validateRequest_def by (simp only: if_True)
    with assms show False by simp
  qed
  have g2: "\<not> (\<not> truthy (get raw ''prompt'') \<or> typeof (get raw ''prompt'') \<noteq> T_string)"
  proof
    assume "\<not> truthy (get raw ''prompt'') \<or> typeof (get raw ''prompt'') \<noteq> T_string"
    with g1 have "validateRequest config raw
        = Inl (Error (js ''Invalid request: prompt is required and must be a string''))"
      unfolding validateRequest_def by (simp only: if_True if_False)
    with assms show False by simp
  qed
  from g1 g2 show "truthy raw" and "typeof raw = T_object"
    and "truthy (get raw ''prompt'')" and "typeof (get raw ''prompt'') = T_string"
    by simp_all
qed

text \<open>
  On an accepted request, a \<open>max_tokens\<close> that is a number other than NaN and 0 is
  clamped into \<open>[1, 128000]\<close>, and \<open>model\<close>, \<open>verbosity\<close> and \<open>reasoning_effort\<close>
  take their defaults when the raw request does not have them.
\<close>

lemma validateRequest_max_tokens_clamped:
  assumes ok: "validateRequest config raw = Inr request"
    and mt: "get raw ''max_tokens'' = JNum n" "n \<noteq> NaN" "n \<noteq> Fin 0"
  shows "max_tokens request = Some (Math_min (Math_max n (Fin 1)) (Fin 128000))"
proof -
  note acc = validateRequest_accepts [OF ok]
  from ok have "request = projr (validateRequest config raw)" by simp
  then show ?thesis
    using acc mt by (simp add: validateRequest_def Let_def)
qed

lemma clamp_finite:
  "Math_min (Math_max (Fin a) (Fin 1)) (Fin 128000) = Fin (min (max a 1) 128000)"
  by simp

lemma validateRequest_defaults:
  assumes ok: "validateRequest config raw = Inr request"
  shows "(get raw ''model'' = JUndefined \<longrightarrow> model request = JStr (defaultModel (openai config)))
       \<and> (get raw ''verbosity'' = JUndefined \<longrightarrow> verbosity request = JStr (js ''medium''))
       \<and> (get raw ''reasoning_effort'' = JUndefined \<longrightarrow>
             reasoning_effort request = JStr (js ''standard''))"
proof -
  note acc = validateRequest_accepts [OF ok]
  from ok have "request = projr (validateRequest config raw)" by simp
  then show ?thesis
    using acc by (simp add: validateRequest_def Let_def or_else_def)
qed

text \<open>
  C6. An input that is not an object (\<open>null\<close>, or a value whose \<open>typeof\<close> is not
  \<open>'object'\<close>) is rejected with the message \<open>Invalid request: must be an object\<close>; an
  object whose \<open>prompt\<close> is absent or not a string is rejected with the message
  \<open>Invalid request: prompt is required and must be a string\<close>. In both cases the
  result is the error, and there is no request.
\<close>

theorem validateRequest_rejects:
  "(raw = JNull \<or> typeof raw \<noteq> T_object \<longrightarrow>
      validateRequest config raw = Inl (Error (js ''Invalid request: must be an object''))
      \<and> (\<forall>request. validateRequest config raw \<noteq> Inr request))
   \<and> (raw \<noteq> JNull \<and> typeof raw = T_object
        \<and> (get raw ''prompt'' = JUndefined \<or> typeof (get raw ''prompt'') \<noteq> T_string) \<longrightarrow>
      validateRequest config raw
        = Inl (Error (js ''Invalid request: prompt is required and must be a string''))
      \<and> (\<forall>request. validateRequest config raw \<noteq> Inr request))"
  by (cases raw) (auto simp: validateRequest_def)

theorem validateRequest_rejects_witness:
  "validateRequest mockConfig JNull = Inl (Error (js ''Invalid request: must be an object''))
   \<and> validateRequest mockConfig (JNum (Fin 42)) = Inl (Error (js ''Invalid request: must be an object''))
   \<and> validateRequest mockConfig (JObj [''model'' \<mapsto> JStr (js ''gpt-5'')])
       = Inl (Error (js ''Invalid request: prompt is required and must be a string''))
   \<and> validateRequest mockConfig (JObj [''prompt'' \<mapsto> JNum (Fin 42)])
       = Inl (Error (js ''Invalid request: prompt is required and must be a string''))"
  using validateRequest_rejects [of JNull mockConfig]
    validateRequest_rejects [of "JNum (Fin 42)" mockConfig]
    validateRequest_rejects [of "JObj [''model'' \<mapsto> JStr (js ''gpt-5'')]" mockConfig]
    validateRequest_rejects [of "JObj [''prompt'' \<mapsto> JNum (Fin 42)]" mockConfig]
  by simp

text \<open>
  C2: \<open>max_tokens: 200000\<close> is clamped to 128000, but \<open>max_tokens: 0\<close> is not clamped
  to 1. The guard \<open>rawRequest.max_tokens && ...\<close> is a truthiness test and 0 is falsy,
  so the returned request has no \<open>max_tokens\<close> at all. (The guard of \<open>temperature\<close>
  compares with \<open>undefined\<close> and lets 0 through.)
\<close>

theorem validateRequest_max_tokens_zero:
  "validateRequest mockConfig
     (JObj [''prompt'' \<mapsto> JStr (js ''Test prompt''), ''max_tokens'' \<mapsto> JNum (Fin 200000)])
   = Inr \<lparr> prompt = js ''Test prompt'', context' = None, model = JStr (js ''gpt-5-nano''),
           verbosity = JStr (js ''medium''), reasoning_effort = JStr (js ''standard''),
           max_tokens = Some (Fin 128000), temperature = None \<rparr>
   \<and> validateRequest mockConfig
     (JObj [''prompt'' \<mapsto> JStr (js ''Test prompt''), ''max_tokens'' \<mapsto> JNum (Fin 0)])
   = Inr \<lparr> prompt = js ''Test prompt'', context' = None, model = JStr (js ''gpt-5-nano''),
           verbosity = JStr (js ''medium''), reasoning_effort = JStr (js ''standard''),
           max_tokens = None, temperature = None \<rparr>"
  by (simp add: eval_validate)

theorem validateRequest_max_tokens_zero_witness:
  "\<not> isl (validateRequest mockConfig
       (JObj [''prompt'' \<mapsto> JStr (js ''Test prompt''), ''max_tokens'' \<mapsto> JNum (Fin 0)]))
   \<and> max_tokens (projr (validateRequest mockConfig
       (JObj [''prompt'' \<mapsto> JStr (js ''Test prompt''), ''max_tokens'' \<mapsto> JNum (Fin 0)])))
     \<noteq> Some (Fin 1)"
  using validateRequest_max_tokens_zero by simp

text \<open>
  C7: a prompt of white space only passes the guard \<open>!rawRequest.prompt\<close> (the string
  \<open>' '\<close> is truthy) and is sanitized afterwards, so \<open>validateRequest\<close> accepts
  \<open>{prompt: ' '}\<close> and returns a request whose prompt is the empty string. The three
  enumerations are filled with their defaults.
\<close>

theorem validateRequest_blank_prompt:
  "validateRequest mockConfig (JObj [''prompt'' \<mapsto> JStr (js '' '')])
   = Inr \<lparr> prompt = [], context' = None, model = JStr (js ''gpt-5-nano''),
           verbosity = JStr (js ''medium''), reasoning_effort = JStr (js ''standard''),
           max_tokens = None, temperature = None \<rparr>"
  by (simp add: eval_validate)

theorem validateRequest_blank_prompt_witness:
  "\<not> isl (validateRequest mockConfig (JObj [''prompt'' \<mapsto> JStr (js '' '')]))
   \<and> prompt (projr (validateRequest mockConfig (JObj [''prompt'' \<mapsto> JStr (js '' '')]))) = []"
  using validateRequest_blank_prompt by simp

section \<open>Properties of formatResponse\<close>

lemma formatResponseContent_header:
  "content' \<noteq> [] \<Longrightarrow> prefix header (formatResponseContent toLowerCase content')"
  by (simp add: formatResponseContent_def Let_def)

text \<open>
  C4 (as amended). For an upstream response whose text is empty, the content of the
  formatted response is exactly the placeholder \<open>No response generated.\<close>: the
  function returns it before the header is added.
\<close>

theorem formatResponse_empty:
  "output_text openaiResponse = [] \<Longrightarrow>
   content (formatResponse toLowerCase now openaiResponse originalRequest processingTimeMs)
     = js ''No response generated.''"
  by (simp add: formatResponse_def formatResponseContent_def)

theorem formatResponse_empty_witness:
  "output_text emptyResponse = []
   \<and> content (formatResponse asciiToLowerCase 0 emptyResponse (simpleRequest (js ''Test prompt'') None) 100)
       = js ''No response generated.''"
  using formatResponse_empty [of emptyResponse asciiToLowerCase 0 "simpleRequest (js ''Test prompt'') None" 100]
  by (simp add: emptyResponse_def)

text \<open>
  C4 as stated fails: the content for the empty response of the unit test does not
  start with the header.
\<close>

theorem formatResponse_empty_no_header:
  "\<not> prefix header
       (content (formatResponse asciiToLowerCase 0 emptyResponse (simpleRequest (js ''Test prompt'') None) 100))"
  by (simp add: formatResponse_def formatResponseContent_def emptyResponse_def header_def js_def)

section \<open>Properties of GPT5Client\<close>

text \<open>
  C8. With a configuration whose API key is missing or empty, the constructor throws
  \<open>GPT5ClientError('OpenAI API key is required')\<close>: construction yields the error and no
  client, so there is no object on which \<open>query\<close> could be called later.
\<close>

theorem GPT5Client_constructor_requires_key:
  "apiKey (openai config) = None \<or> apiKey (openai config) = Some [] \<Longrightarrow>
   GPT5Client_constructor config = Inl (GPT5ClientError (js ''OpenAI API key is required'') None None)
   \<and> (\<forall>client. GPT5Client_constructor config \<noteq> Inr client)"
  by (auto simp: GPT5Client_constructor_def)

theorem GPT5Client_constructor_requires_key_witness:
  "GPT5Client_constructor (withApiKey None mockConfig)
     = Inl (GPT5ClientError (js ''OpenAI API key is required'') None None)
   \<and> GPT5Client_constructor (withApiKey (Some []) mockConfig)
     = Inl (GPT5ClientError (js ''OpenAI API key is required'') None None)"
  using GPT5Client_constructor_requires_key [of "withApiKey None mockConfig"]
    GPT5Client_constructor_requires_key [of "withApiKey (Some []) mockConfig"]
  by (simp add: withApiKey_def)

text \<open>
  C9. \<open>testConnection\<close> always returns a boolean and lets no exception out: it returns
  \<open>false\<close> whenever the upstream call of the probe throws, whatever is thrown, and
  \<open>true\<close> whenever that call returns.
\<close>

theorem testConnection_returns_boolean:
  "(\<exists>b. testConnection client create startTime = Inr b)
   \<and> (\<forall>e. create probeParams = Inl e \<longrightarrow> testConnection client create startTime = Inr False)
   \<and> (\<forall>response. create probeParams = Inr response \<longrightarrow>
         testConnection client create startTime = Inr True)"
  by (auto simp: testConnection_def query_def formatRequest_def testRequest_def probeParams_def
        Let_def split: sum.splits thrown.splits)

theorem testConnection_returns_boolean_witness:
  "testConnection
     \<lparr> client_config = mockConfig,
       client_openai = \<lparr> opt_apiKey = Some (js ''sk-test-key''), opt_baseURL = None, opt_timeout = 30000 \<rparr> \<rparr>
     failingCreate 0 = Inr False
   \<and> testConnection
     \<lparr> client_config = mockConfig,
       client_openai = \<lparr> opt_apiKey = Some (js ''sk-test-key''), opt_baseURL = None, opt_timeout = 30000 \<rparr> \<rparr>
     succeedingCreate 0 = Inr True"
  using testConnection_returns_boolean
      [of "\<lparr> client_config = mockConfig,
             client_openai = \<lparr> opt_apiKey = Some (js ''sk-test-key''), opt_baseURL = None, opt_timeout = 30000 \<rparr> \<rparr>"
          failingCreate 0]
    testConnection_returns_boolean
      [of "\<lparr> client_config = mockConfig,
             client_openai = \<lparr> opt_apiKey = Some (js ''sk-test-key''), opt_baseURL = None, opt_timeout = 30000 \<rparr> \<rparr>"
          succeedingCreate 0]
  by (simp add: failingCreate_def succeedingCreate_def)

end
